theory Spec2Isabelle
  imports Complex_Main
begin

section \<open>Numeric model\<close>

text \<open>
  The program computes with numpy arrays of float64. A finite float is modelled as a
  \<^typ>\<open>real\<close> and arithmetic on finite values as exact (rounding and overflow are not
  modelled). An array is a list, a two-dimensional array a list of rows.

  Two operations of the program make a non-finite value out of finite ones, and a claim
  depends on each: \<^verbatim>\<open>np.log\<close> at 0 (the relative entropy) and the division
  \<^verbatim>\<open>RE/min_RE\<close> of \<^verbatim>\<open>find_\<xi>\<close>. The values that flow from there are of type
  \<open>npfloat\<close>: a finite value, an infinity or NaN, with the IEEE rules for the special
  values (NaN absorbs, \<open>0 * inf = NaN\<close>, \<open>inf - inf = NaN\<close>, every comparison with NaN
  is false). A zero is taken as \<open>+0.0\<close>.
\<close>

datatype npfloat = Fin real | PInf | NInf | NaN

fun fl_uminus :: "npfloat \<Rightarrow> npfloat" where
  "fl_uminus (Fin a) = Fin (- a)"
| "fl_uminus PInf = NInf"
| "fl_uminus NInf = PInf"
| "fl_uminus NaN = NaN"

fun fl_add :: "npfloat \<Rightarrow> npfloat \<Rightarrow> npfloat" where
  "fl_add NaN _ = NaN"
| "fl_add _ NaN = NaN"
| "fl_add (Fin a) (Fin b) = Fin (a + b)"
| "fl_add PInf NInf = NaN"
| "fl_add NInf PInf = NaN"
| "fl_add PInf _ = PInf"
| "fl_add _ PInf = PInf"
| "fl_add NInf _ = NInf"
| "fl_add _ NInf = NInf"

definition fl_sub :: "npfloat \<Rightarrow> npfloat \<Rightarrow> npfloat" where
  "fl_sub a b = fl_add a (fl_uminus b)"

text \<open>The sign of a value: \<open>Some True\<close> for negative, \<open>Some False\<close> for positive or zero
  (\<open>+0.0\<close>), \<open>None\<close> for NaN.\<close>

fun fl_negative :: "npfloat \<Rightarrow> bool option" where
  "fl_negative (Fin a) = Some (a < 0)"
| "fl_negative PInf = Some False"
| "fl_negative NInf = Some True"
| "fl_negative NaN = None"

definition fl_signed_inf :: "bool \<Rightarrow> npfloat" where
  "fl_signed_inf neg = (if neg then NInf else PInf)"

fun fl_mult :: "npfloat \<Rightarrow> npfloat \<Rightarrow> npfloat" where
  "fl_mult NaN _ = NaN"
| "fl_mult _ NaN = NaN"
| "fl_mult (Fin a) (Fin b) = Fin (a * b)"
| "fl_mult (Fin a) b = (if a = 0 then NaN else fl_signed_inf ((a < 0) \<noteq> (b = NInf)))"
| "fl_mult a (Fin b) = (if b = 0 then NaN else fl_signed_inf ((a = NInf) \<noteq> (b < 0)))"
| "fl_mult a b = fl_signed_inf ((a = NInf) \<noteq> (b = NInf))"

fun fl_div :: "npfloat \<Rightarrow> npfloat \<Rightarrow> npfloat" where
  "fl_div NaN _ = NaN"
| "fl_div _ NaN = NaN"
| "fl_div (Fin a) (Fin b) =
     (if b \<noteq> 0 then Fin (a / b) else if a = 0 then NaN else fl_signed_inf (a < 0))"
| "fl_div (Fin a) _ = Fin 0"
| "fl_div a (Fin b) = fl_signed_inf ((a = NInf) \<noteq> (b < 0))"
| "fl_div _ _ = NaN"

fun fl_abs :: "npfloat \<Rightarrow> npfloat" where
  "fl_abs (Fin a) = Fin \<bar>a\<bar>"
| "fl_abs PInf = PInf"
| "fl_abs NInf = PInf"
| "fl_abs NaN = NaN"

fun fl_less :: "npfloat \<Rightarrow> npfloat \<Rightarrow> bool" where
  "fl_less NaN _ = False"
| "fl_less _ NaN = False"
| "fl_less (Fin a) (Fin b) = (a < b)"
| "fl_less NInf NInf = False"
| "fl_less NInf _ = True"
| "fl_less _ NInf = False"
| "fl_less PInf _ = False"
| "fl_less _ PInf = True"

text \<open>\<^verbatim>\<open>np.log\<close> of a finite value: \<open>-inf\<close> at 0 and NaN below.\<close>

definition np_log :: "real \<Rightarrow> npfloat" where
  "np_log a = (if 0 < a then Fin (ln a) else if a = 0 then NInf else NaN)"

definition fl_sum :: "npfloat list \<Rightarrow> npfloat" where
  "fl_sum xs = foldl fl_add (Fin 0) xs"

text \<open>\<^verbatim>\<open>np.mean\<close> where a NaN can occur: the sum over the count, \<open>0/0 = NaN\<close> on an empty
  selection.\<close>

definition fl_mean :: "npfloat list \<Rightarrow> npfloat" where
  "fl_mean xs = fl_div (fl_sum xs) (Fin (real (length xs)))"

definition fl_dot :: "npfloat list \<Rightarrow> npfloat list \<Rightarrow> npfloat" where
  "fl_dot xs ys = fl_sum (map2 fl_mult xs ys)"

section \<open>Arrays\<close>

text \<open>
  The array operations the program uses. Shapes are not checked here (numpy raises on a
  mismatch; \<open>map2\<close> truncates): the theorems that need the shapes assume them.
  \<^verbatim>\<open>np.mean\<close> of an empty selection is NaN in numpy, which \<open>real\<close> cannot hold: the
  theorems that read such a mean assume that the state has a row.
\<close>

definition dot :: "real list \<Rightarrow> real list \<Rightarrow> real" where
  "dot xs ys = sum_list (map2 (*) xs ys)"

definition matvec :: "real list list \<Rightarrow> real list \<Rightarrow> real list" where
  "matvec A y = map (\<lambda>row. dot row y) A"

definition astype_float :: "bool list list \<Rightarrow> real list list" where
  "astype_float B = map (map of_bool) B"

definition column :: "'a list list \<Rightarrow> nat \<Rightarrow> 'a list" where
  "column A j = map (\<lambda>row. row ! j) A"

definition mask_select :: "bool list \<Rightarrow> 'a list \<Rightarrow> 'a list" where
  "mask_select sel xs = map snd (filter fst (zip sel xs))"

definition vadd :: "real list \<Rightarrow> real list \<Rightarrow> real list" where
  "vadd xs ys = map2 (+) xs ys"

definition vsub :: "real list \<Rightarrow> real list \<Rightarrow> real list" where
  "vsub xs ys = map2 (-) xs ys"

definition np_mean :: "real list \<Rightarrow> real" where
  "np_mean xs = sum_list xs / real (length xs)"

definition np_max :: "real list \<Rightarrow> real" where
  "np_max xs = foldl max (hd xs) (tl xs)"

text \<open>\<^verbatim>\<open>x[x<0] = 0\<close>\<close>

definition clip_negative :: "real list \<Rightarrow> real list" where
  "clip_negative xs = map (\<lambda>t. if t < 0 then 0 else t) xs"

section \<open>The objective\<close>

text \<open>\<^verbatim>\<open>_objective_numba\<close> (the name cannot start with an underscore here). The state is
  1-based; \<open>\<lambda>\<close> is a reserved word, so the dual vector is \<open>lam\<close>.\<close>

definition objective_numba ::
  "real list list \<Rightarrow> real list \<Rightarrow> bool list list \<Rightarrow> real list list \<Rightarrow> nat \<Rightarrow> nat \<Rightarrow>
   real list \<Rightarrow> real \<Rightarrow> real list \<Rightarrow> real" where
  "objective_numba f g pd_lag_indicator pd_indicator_float state n_f v \<xi> lam =
    (let lam_1 = butlast lam;
         lam_2 = last lam;
         selector = column pd_lag_indicator (state - 1);
         term_1 = 0.5;
         term_2 = map (\<lambda>t. (t + lam_2) / (- \<xi>))
           (vadd (vadd (mask_select selector g)
                       (matvec (mask_select selector pd_indicator_float) v))
                 (matvec (mask_select selector
                            (map (\<lambda>row. take (state * n_f - (state - 1) * n_f)
                                          (drop ((state - 1) * n_f) row)) f)) lam_1));
         y = map (\<lambda>t. term_1 + t) term_2;
         y = clip_negative y
     in np_mean (map (\<lambda>t. t ^ 2) y) * (\<xi> / 2) + lam_2)"




section \<open>The solver\<close>

text \<open>
  \<^verbatim>\<open>InterDivConstraint\<close>. The constructor reads a CSV file and prepares the arrays; the
  model takes the prepared arrays as given. The dimensions are the constants the
  constructor assigns. A field that is \<^verbatim>\<open>None\<close> after construction (\<open>g\<close>, \<open>state\<close>,
  \<open>v\<close>, \<open>\<mu>\<close>) or does not exist before the first call of \<^verbatim>\<open>iterate\<close> (\<open>\<xi>\<close>,
  \<open>lower\<close>) is an option. \<^verbatim>\<open>iterate\<close> assigns \<open>\<xi>\<close>, \<open>lower\<close>, \<open>v\<close> and \<open>state\<close>
  before the objective reads them, so \<^term>\<open>the\<close> is never applied to \<open>None\<close> on a path
  of \<^verbatim>\<open>iterate\<close>.
\<close>

definition n_f :: nat where
  "n_f = 4"

definition n_states :: nat where
  "n_states = 3"

record solver =
  pd_indicator :: "bool list list"
  pd_indicator_float :: "real list list"
  pd_lag_indicator :: "bool list list"
  X :: "real list list"
  f :: "real list list"
  log_Rw :: "real list"
  g :: "real list option"
  state :: "nat option"
  v :: "real list option"
  mu :: "real option"
  tol :: real
  max_iter :: nat
  xi :: "real option"
  lower :: "bool option"

text \<open>\<^verbatim>\<open>_objective\<close>\<close>

definition objective :: "solver \<Rightarrow> real list \<Rightarrow> real" where
  "objective S lam =
    (if the (lower S)
     then objective_numba (f S) (the (g S)) (pd_lag_indicator S) (pd_indicator_float S)
            (the (state S)) n_f (the (v S)) (the (xi S)) lam
     else objective_numba (f S) (map uminus (the (g S))) (pd_lag_indicator S)
            (pd_indicator_float S) (the (state S)) n_f (the (v S)) (the (xi S)) lam)"

subsection \<open>The per-state solver\<close>

text \<open>
  \<^verbatim>\<open>scipy.optimize.minimize\<close> is a library outside the repository: the model takes it as
  a parameter, a function of the objective, the starting point, the method, the tolerance
  and the iteration bound that returns scipy's result object (it is assumed to return).
\<close>

datatype opt_method = L_BFGS_B | BFGS | CG

record opt_result =
  success :: bool
  fun_val :: real
  x_val :: "real list"
  message :: string

type_synonym minimize =
  "(real list \<Rightarrow> real) \<Rightarrow> real list \<Rightarrow> opt_method \<Rightarrow> real \<Rightarrow> nat \<Rightarrow> opt_result"

text \<open>What the program prints, in order.\<close>

datatype msg =
    SolverWarning real real
  | SolverMessage string
  | PrintV "real list"
  | PrintInner "real list"
  | MaxIterReached npfloat

text \<open>The loop over the methods, with its \<^verbatim>\<open>break\<close>: the value of \<^verbatim>\<open>model\<close> after it.\<close>

fun for_methods :: "(opt_method \<Rightarrow> opt_result) \<Rightarrow> opt_method \<Rightarrow> opt_method list \<Rightarrow> opt_result" where
  "for_methods run m [] = run m"
| "for_methods run m (m' # ms) =
     (let model = run m in if success model then model else for_methods run m' ms)"

text \<open>\<^verbatim>\<open>_min_objective\<close>: the triple it returns and what it prints.\<close>

definition min_objective :: "minimize \<Rightarrow> solver \<Rightarrow> (real \<times> real list \<times> real) \<times> msg list" where
  "min_objective minimize S =
    (let model = for_methods
           (\<lambda>opt_method. minimize (objective S) (replicate (n_f + 1) 1) opt_method (tol S) (max_iter S))
           L_BFGS_B [BFGS, CG];
         printed = (if success model = False
                    then [SolverWarning (the (xi S)) (tol S), SolverMessage (message model)]
                    else []);
         v_mu = - fun_val model;
         lam_1 = butlast (x_val model);
         lam_2 = last (x_val model)
     in ((v_mu, lam_1, lam_2), printed))"

subsection \<open>The fixed-point loop of iterate\<close>

text \<open>The variables of the loop: the solver (\<^verbatim>\<open>self\<close>), the locals and the printed lines.
  The locals \<open>v_\<mu>\<close>, \<open>\<lambda>_1\<close> and \<open>\<lambda>_2\<close> are unbound until the first pass assigns them;
  they are empty lists until then.\<close>

record loop_state =
  self :: solver
  v_mu :: "real list"
  lam_1 :: "real list"
  lam_2 :: "real list"
  error :: real
  count :: nat
  stdout :: "msg list"

text \<open>One pass of the loop over the states: \<^verbatim>\<open>self.state = k\<close>, the call of
  \<^verbatim>\<open>_min_objective\<close> and the three assignments. The slice assignment assumes that the
  optimiser returns a vector of the length of its starting point, as scipy does.\<close>

definition solve_state :: "minimize \<Rightarrow> loop_state \<Rightarrow> nat \<Rightarrow> loop_state" where
  "solve_state minimize st k =
    (let S = (self st)\<lparr>state := Some k\<rparr>;
         r = min_objective minimize S
     in st\<lparr>self := S,
           v_mu := (v_mu st)[k - 1 := fst (fst r)],
           lam_1 := take ((k - 1) * n_f) (lam_1 st) @ fst (snd (fst r)) @ drop (k * n_f) (lam_1 st),
           lam_2 := (lam_2 st)[k - 1 := snd (snd (fst r))],
           stdout := stdout st @ snd r\<rparr>)"

definition loop_body :: "minimize \<Rightarrow> loop_state \<Rightarrow> loop_state" where
  "loop_body minimize st =
    (let st = (if count st = 0
               then st\<lparr>self := (self st)\<lparr>v := Some (replicate n_states 0)\<rparr>,
                       v_mu := replicate n_states 0,
                       lam_1 := replicate (n_states * n_f) 0,
                       lam_2 := replicate n_states 0\<rparr>
               else st);
         st = foldl (solve_state minimize) st [1..<n_states + 1];
         v_old = the (v (self st));
         mu_new = v_mu st ! 0;
         v_new = map (\<lambda>t. t - v_mu st ! 0) (v_mu st);
         error_new = np_max (map abs (vsub v_new v_old))
     in st\<lparr>self := (self st)\<lparr>mu := Some mu_new, v := Some v_new\<rparr>,
           error := error_new,
           count := count st + 1,
           stdout := stdout st @ [PrintV v_new]\<rparr>)"

text \<open>\<^verbatim>\<open>while error > self.tol\<close>: no other exit. The result is \<open>None\<close> when the loop
  runs forever.\<close>

partial_function (option) iterate_loop :: "minimize \<Rightarrow> loop_state \<Rightarrow> loop_state option" where
  "iterate_loop minimize st =
    (if error st > tol (self st) then iterate_loop minimize (loop_body minimize st)
     else Some st)"

subsection \<open>After the loop\<close>

text \<open>The exceptions of the program. \<open>LoopNotEntered\<close> is the exception Python raises
  when the loop body never ran (a tolerance of 1 or more) and the line of \<open>M\<close> reads
  \<^verbatim>\<open>self.v\<close> or the unbound local \<open>\<lambda>_1\<close>.\<close>

datatype exn =
    GNotDefined
  | ZeroDivisionError
  | LoopNotEntered
  | LinAlgError
  | UnboundLocalError

text \<open>The result mapping, a field for each key.\<close>

record result =
  r_lam_1 :: "real list"
  r_lam_2 :: "real list"
  r_count :: nat
  r_xi :: real
  r_mu :: real
  r_v :: "real list"
  r_RE_cond :: "npfloat list"
  r_RE :: npfloat
  r_E_M_cond :: "real list"
  r_P :: "real list list"
  r_pi :: "real list"
  r_P_tilde :: "real list list"
  r_pi_tilde :: "real list"
  r_moment_bound :: real
  r_moment_bound_check :: npfloat
  r_moment_bound_cond :: "real list"
  r_moment_cond :: "real list"
  r_moment :: real
  r_M :: "real list"

text \<open>\<^verbatim>\<open>np.arange(1, self.n_states+1, 1)\<close>\<close>

definition states :: "nat list" where
  "states = [1..<n_states + 1]"

text \<open>The sum inside \<open>M\<close> (the vector the lower branch prints), for the moment vector
  \<open>gs\<close> with its sign.\<close>

definition M_inner :: "solver \<Rightarrow> real list \<Rightarrow> real list \<Rightarrow> real list \<Rightarrow> real list" where
  "M_inner S gs lam1 lam2 =
     vadd (vadd (map (\<lambda>t. t - the (mu S))
                  (vsub (vadd gs (matvec (astype_float (pd_indicator S)) (the (v S))))
                        (matvec (astype_float (pd_lag_indicator S)) (the (v S)))))
                (matvec (f S) lam1))
          (matvec (astype_float (pd_lag_indicator S)) lam2)"

definition distortion_M :: "solver \<Rightarrow> real list \<Rightarrow> real list \<Rightarrow> real list \<times> msg list" where
  "distortion_M S lam1 lam2 =
     (if the (lower S)
      then (clip_negative
              (map (\<lambda>t. 0.5 - 1 / the (xi S) * t) (M_inner S (the (g S)) lam1 lam2)),
            [PrintInner (M_inner S (the (g S)) lam1 lam2)])
      else (clip_negative
              (map (\<lambda>t. 0.5 - 1 / the (xi S) * t)
                 (M_inner S (map uminus (the (g S))) lam1 lam2)),
            []))"

text \<open>The rows of a state: \<^verbatim>\<open>a[self.pd_lag_indicator[:,i-1]]\<close>\<close>

definition state_rows :: "solver \<Rightarrow> nat \<Rightarrow> 'a list \<Rightarrow> 'a list" where
  "state_rows S i a = mask_select (column (pd_lag_indicator S) (i - 1)) a"

definition E_M_cond_of :: "solver \<Rightarrow> real list \<Rightarrow> real list" where
  "E_M_cond_of S M = map (\<lambda>i. np_mean (state_rows S i M)) states"

definition P_tilde_of :: "solver \<Rightarrow> real list \<Rightarrow> real list list" where
  "P_tilde_of S M =
     map (\<lambda>i. map (\<lambda>j. np_mean (map2 (\<lambda>m b. m * of_bool b) (state_rows S i M)
                                     (column (state_rows S i (pd_indicator S)) (j - 1))))
                   states) states"

definition P_of :: "solver \<Rightarrow> real list list" where
  "P_of S =
     map (\<lambda>i. map (\<lambda>j. np_mean (map of_bool (column (state_rows S i (pd_indicator S)) (j - 1))))
                   states) states"

text \<open>\<^verbatim>\<open>np.linalg.solve\<close> for the 3 by 3 systems of the program, by Cramer's rule: the
  solution when the determinant is not 0, \<^verbatim>\<open>LinAlgError\<close> on a singular matrix.\<close>

definition det3 :: "real list list \<Rightarrow> real" where
  "det3 A =
     A ! 0 ! 0 * (A ! 1 ! 1 * A ! 2 ! 2 - A ! 1 ! 2 * A ! 2 ! 1)
   - A ! 0 ! 1 * (A ! 1 ! 0 * A ! 2 ! 2 - A ! 1 ! 2 * A ! 2 ! 0)
   + A ! 0 ! 2 * (A ! 1 ! 0 * A ! 2 ! 1 - A ! 1 ! 1 * A ! 2 ! 0)"

definition replace_column :: "real list list \<Rightarrow> nat \<Rightarrow> real list \<Rightarrow> real list list" where
  "replace_column A j b = map2 (\<lambda>row t. row[j := t]) A b"

definition linalg_solve :: "real list list \<Rightarrow> real list \<Rightarrow> exn + real list" where
  "linalg_solve A b =
     (if length A = 3 \<and> list_all (\<lambda>row. length row = 3) A \<and> length b = 3 \<and> det3 A \<noteq> 0
      then Inr (map (\<lambda>j. det3 (replace_column A j b) / det3 A) [0..<3])
      else Inl LinAlgError)"

definition eye :: "nat \<Rightarrow> real list list" where
  "eye n = map (\<lambda>i. map (\<lambda>j. if i = j then 1 else 0) [0..<n]) [0..<n]"

text \<open>The stationary distribution: \<^verbatim>\<open>A = P.T - np.eye(n)\<close>, \<^verbatim>\<open>A[-1] = np.ones(n)\<close>,
  \<^verbatim>\<open>B = np.zeros(n)\<close>, \<^verbatim>\<open>B[-1] = 1.\<close>, \<^verbatim>\<open>np.linalg.solve(A, B)\<close>\<close>

definition stationary :: "real list list \<Rightarrow> exn + real list" where
  "stationary Pm =
     (let A = map2 vsub (transpose Pm) (eye n_states);
          A = A[length A - 1 := replicate n_states 1];
          B = replicate n_states 0;
          B = B[length B - 1 := 1]
      in linalg_solve A B)"

definition RE_cond_of :: "solver \<Rightarrow> real list \<Rightarrow> npfloat list" where
  "RE_cond_of S M =
     map (\<lambda>i. fl_mean (map2 fl_mult (map Fin (state_rows S i M))
                                    (map np_log (state_rows S i M)))) states"

definition moment_bound_cond_of :: "solver \<Rightarrow> real list \<Rightarrow> real list" where
  "moment_bound_cond_of S M =
     map (\<lambda>i. np_mean (map2 (*) (state_rows S i M) (state_rows S i (the (g S))))) states"

definition moment_cond_of :: "solver \<Rightarrow> real list" where
  "moment_cond_of S = map (\<lambda>i. np_mean (state_rows S i (the (g S)))) states"

text \<open>The lines of \<^verbatim>\<open>iterate\<close> after the loop, in their order: \<open>M\<close> (where
  \<^verbatim>\<open>1./self.\<xi>\<close> raises at 0), the two transition matrices with their stationary
  distributions (where \<^verbatim>\<open>np.linalg.solve\<close> can raise), the relative entropy, the
  moments, the result mapping.\<close>

definition after_loop :: "loop_state \<Rightarrow> (exn + result) \<times> msg list" where
  "after_loop st =
    (let S = self st in
     if the (xi S) = 0 then (Inl ZeroDivisionError, [])
     else if count st = 0 then (Inl LoopNotEntered, [])
     else
       (let M = fst (distortion_M S (lam_1 st) (lam_2 st));
            printed = snd (distortion_M S (lam_1 st) (lam_2 st));
            E_M_cond = E_M_cond_of S M;
            P_tilde = P_tilde_of S M
        in case stationary P_tilde of
             Inl e \<Rightarrow> (Inl e, printed)
           | Inr pi_tilde \<Rightarrow>
              (let P = P_of S
               in case stationary P of
                    Inl e \<Rightarrow> (Inl e, printed)
                  | Inr pi_emp \<Rightarrow>
                     (let RE_cond = RE_cond_of S M;
                          RE = fl_dot RE_cond (map Fin pi_tilde);
                          moment_bound_check =
                            fl_sub (Fin (the (mu S))) (fl_mult (Fin (the (xi S))) RE);
                          moment_bound_cond = moment_bound_cond_of S M;
                          moment_bound = dot moment_bound_cond pi_tilde;
                          moment_cond = moment_cond_of S;
                          moment = np_mean (the (g S))
                      in (Inr \<lparr>r_lam_1 = lam_1 st, r_lam_2 = lam_2 st, r_count = count st,
                               r_xi = the (xi S), r_mu = the (mu S), r_v = the (v S),
                               r_RE_cond = RE_cond, r_RE = RE, r_E_M_cond = E_M_cond,
                               r_P = P, r_pi = pi_emp, r_P_tilde = P_tilde,
                               r_pi_tilde = pi_tilde, r_moment_bound = moment_bound,
                               r_moment_bound_check = moment_bound_check,
                               r_moment_bound_cond = moment_bound_cond,
                               r_moment_cond = moment_cond, r_moment = moment,
                               r_M = M\<rparr>, printed)))))"

subsection \<open>iterate\<close>

text \<open>\<^verbatim>\<open>iterate\<close> returns the result mapping or raises, with the solver as it leaves it
  and the lines it printed; \<open>None\<close> when the loop does not end.\<close>

text \<open>The variables as the loop finds them: \<^verbatim>\<open>self.\<xi> = \<xi>\<close>, \<^verbatim>\<open>self.lower = lower\<close>,
  \<^verbatim>\<open>error = 1.\<close>, \<^verbatim>\<open>count = 0\<close>.\<close>

definition loop_init :: "solver \<Rightarrow> real \<Rightarrow> bool \<Rightarrow> loop_state" where
  "loop_init S \<xi> lw =
     \<lparr>self = S\<lparr>xi := Some \<xi>, lower := Some lw\<rparr>, v_mu = [], lam_1 = [], lam_2 = [],
      error = 1, count = 0, stdout = []\<rparr>"

definition iterate ::
  "minimize \<Rightarrow> solver \<Rightarrow> real \<Rightarrow> bool \<Rightarrow> ((exn + result) \<times> solver \<times> msg list) option" where
  "iterate minimize S \<xi> lw =
    (case g S of
       None \<Rightarrow> Some (Inl GNotDefined, S, [])
     | Some _ \<Rightarrow>
        (case iterate_loop minimize (loop_init S \<xi> lw) of
           None \<Rightarrow> None
         | Some st \<Rightarrow> Some (fst (after_loop st), self st, stdout st @ snd (after_loop st))))"

subsection \<open>find_\<xi>\<close>

text \<open>The \<^verbatim>\<open>for\<close> loop of \<^verbatim>\<open>find_\<xi>\<close> over the indices that remain. \<open>vars\<close> holds
  the locals \<open>\<xi>\<close>, \<open>lower_bound\<close> and \<open>upper_bound\<close>, unbound (\<open>None\<close>) until the pass
  with \<open>i = 0\<close> assigns them. The loop returns them with \<open>count\<close>, or the exception of
  \<^verbatim>\<open>iterate\<close>.\<close>

fun find_xi_for ::
  "minimize \<Rightarrow> real \<Rightarrow> bool \<Rightarrow> real \<Rightarrow> nat \<Rightarrow> npfloat \<Rightarrow> nat list \<Rightarrow>
   (real \<times> real \<times> real) option \<Rightarrow> nat \<Rightarrow> solver \<Rightarrow> msg list \<Rightarrow>
   ((exn + (real \<times> real \<times> real) option \<times> nat) \<times> solver \<times> msg list) option" where
  "find_xi_for minimize x_min_RE lw tol_b mx min_RE [] vars cnt S pr = Some (Inr (vars, cnt), S, pr)"
| "find_xi_for minimize x_min_RE lw tol_b mx min_RE (i # rest) vars cnt S pr =
    (case (if i = 0 then Some (1, 0, 100) else vars) of
       None \<Rightarrow> Some (Inl UnboundLocalError, S, pr)
     | Some (\<xi>, lower_bound, upper_bound) \<Rightarrow>
        (case iterate minimize S \<xi> lw of
           None \<Rightarrow> None
         | Some (Inl e, S', pr') \<Rightarrow> Some (Inl e, S', pr @ pr')
         | Some (Inr res, S', pr') \<Rightarrow>
            (let RE = r_RE res;
                 err = fl_sub (fl_div RE min_RE) (Fin x_min_RE)
             in if fl_less (fl_abs err) (Fin tol_b)
                then Some (Inr (Some (\<xi>, lower_bound, upper_bound), cnt), S', pr @ pr')
                else find_xi_for minimize x_min_RE lw tol_b mx min_RE rest
                       (if fl_less err (Fin 0)
                        then Some ((lower_bound + \<xi>) / 2, lower_bound, \<xi>)
                        else Some ((\<xi> + upper_bound) / 2, \<xi>, upper_bound))
                       (cnt + 1) S'
                       (pr @ pr' @ (if cnt + 1 = mx
                                    then [MaxIterReached
                                            (fl_sub (fl_div RE min_RE) (Fin x_min_RE))]
                                    else [])))))"

text \<open>\<^verbatim>\<open>find_\<xi>\<close>: the reference run at 100, the loop over \<^verbatim>\<open>range(max_iter)\<close>,
  \<^verbatim>\<open>return \<xi>\<close> (an unbound local when the loop had no pass).\<close>

definition find_xi ::
  "minimize \<Rightarrow> solver \<Rightarrow> real \<Rightarrow> bool \<Rightarrow> real \<Rightarrow> nat \<Rightarrow>
   ((exn + real) \<times> solver \<times> msg list) option" where
  "find_xi minimize S x_min_RE lw tol_b mx =
    (case iterate minimize S 100 lw of
       None \<Rightarrow> None
     | Some (Inl e, S', pr) \<Rightarrow> Some (Inl e, S', pr)
     | Some (Inr res, S', pr) \<Rightarrow>
        (case find_xi_for minimize x_min_RE lw tol_b mx (r_RE res) [0..<mx] None 0 S' pr of
           None \<Rightarrow> None
         | Some (Inl e, S'', pr') \<Rightarrow> Some (Inl e, S'', pr')
         | Some (Inr (None, cnt), S'', pr') \<Rightarrow> Some (Inl UnboundLocalError, S'', pr')
         | Some (Inr (Some (\<xi>, lower_bound, upper_bound), cnt), S'', pr') \<Rightarrow>
             Some (Inr \<xi>, S'', pr')))"

section \<open>The bisection as the specification words it\<close>

text \<open>The state is the candidate \<open>\<xi>\<close> and the bracket \<open>[lo, hi]\<close>; \<open>n\<close> steps remain. A
  step runs \<^verbatim>\<open>iterate\<close> at \<open>\<xi>\<close> and stops with \<open>\<xi>\<close> when the error is within the
  tolerance; otherwise it shrinks the bracket and moves \<open>\<xi>\<close> to a midpoint.\<close>

fun spec_bisect ::
  "minimize \<Rightarrow> real \<Rightarrow> bool \<Rightarrow> real \<Rightarrow> npfloat \<Rightarrow> nat \<Rightarrow> real \<Rightarrow> real \<Rightarrow> real \<Rightarrow> solver \<Rightarrow>
   (exn + real) option" where
  "spec_bisect minimize x_min_RE lw tol_b min_RE 0 \<xi> lo hi S = Some (Inr \<xi>)"
| "spec_bisect minimize x_min_RE lw tol_b min_RE (Suc n) \<xi> lo hi S =
    (case iterate minimize S \<xi> lw of
       None \<Rightarrow> None
     | Some (Inl e, S', pr) \<Rightarrow> Some (Inl e)
     | Some (Inr res, S', pr) \<Rightarrow>
        (let err = fl_sub (fl_div (r_RE res) min_RE) (Fin x_min_RE)
         in if fl_less (fl_abs err) (Fin tol_b) then Some (Inr \<xi>)
            else if fl_less err (Fin 0)
            then spec_bisect minimize x_min_RE lw tol_b min_RE n ((lo + \<xi>) / 2) lo \<xi> S'
            else spec_bisect minimize x_min_RE lw tol_b min_RE n ((\<xi> + hi) / 2) \<xi> hi S'))"

definition spec_find_xi ::
  "minimize \<Rightarrow> solver \<Rightarrow> real \<Rightarrow> bool \<Rightarrow> real \<Rightarrow> nat \<Rightarrow> (exn + real) option" where
  "spec_find_xi minimize S x_min_RE lw tol_b mx =
    (case iterate minimize S 100 lw of
       None \<Rightarrow> None
     | Some (Inl e, S', pr) \<Rightarrow> Some (Inl e)
     | Some (Inr res, S', pr) \<Rightarrow>
         spec_bisect minimize x_min_RE lw tol_b (r_RE res) mx 1 0 100 S')"

section \<open>Prepared data\<close>




section \<open>An example: a three-period chain\<close>

text \<open>
  Three periods with the price-dividend ratio in states 1, 2, 3 and then 1 again: the lag
  indicator has the states 1, 2, 3 and the next-period indicator the states 2, 3, 1. The
  factors are all zero, the tolerance and the iteration bound are the defaults.
\<close>

definition chain_solver :: "real list \<Rightarrow> solver" where
  "chain_solver gs =
     \<lparr>pd_indicator = [[False, True, False], [False, False, True], [True, False, False]],
      pd_indicator_float = [[0, 1, 0], [0, 0, 1], [1, 0, 0]],
      pd_lag_indicator = [[True, False, False], [False, True, False], [False, False, True]],
      X = replicate 3 (replicate 4 0),
      f = replicate 3 (replicate 12 0),
      log_Rw = gs,
      g = Some gs, state = None, v = None, mu = None,
      tol = 1 / 100000000, max_iter = 1000, xi = None, lower = None\<rparr>"

definition chain_data :: "solver \<Rightarrow> real list \<Rightarrow> bool" where
  "chain_data S gs \<longleftrightarrow>
     pd_indicator S = [[False, True, False], [False, False, True], [True, False, False]] \<and>
     pd_indicator_float S = [[0, 1, 0], [0, 0, 1], [1, 0, 0]] \<and>
     pd_lag_indicator S = [[True, False, False], [False, True, False], [False, False, True]] \<and>
     f S = replicate 3 (replicate 12 0) \<and>
     g S = Some gs \<and> tol S = 1 / 100000000"

text \<open>
  An optimiser for the examples: one Newton step on the last coordinate from the
  starting point, with the derivatives taken by central differences. On an objective that
  is quadratic in that coordinate around the starting point (as the objective of the chain
  is) the step lands on the minimiser.
\<close>

definition minimize_newton :: minimize where
  "minimize_newton obj x0 opt_method tolerance maxiter =
     (let n = length x0 - 1;
          probe = (\<lambda>t. obj (x0[n := t]));
          t0 = x0 ! n;
          d1 = (probe (t0 + 1) - probe (t0 - 1)) / 2;
          d2 = probe (t0 + 1) - 2 * probe t0 + probe (t0 - 1);
          t1 = t0 - d1 / d2
      in \<lparr>success = True, fun_val = probe t1, x_val = x0[n := t1], message = ''''\<rparr>)"

text \<open>The arrays and the settings that \<^verbatim>\<open>iterate\<close> reads and never assigns.\<close>

definition same_data :: "solver \<Rightarrow> solver \<Rightarrow> bool" where
  "same_data S S' \<longleftrightarrow>
     pd_indicator S' = pd_indicator S \<and> pd_indicator_float S' = pd_indicator_float S \<and>
     pd_lag_indicator S' = pd_lag_indicator S \<and> X S' = X S \<and> f S' = f S \<and>
     log_Rw S' = log_Rw S \<and> g S' = g S \<and> tol S' = tol S \<and> max_iter S' = max_iter S"

text \<open>An optimiser whose iteration budget is used up at once: it reports failure and
  returns its starting point.\<close>

definition minimize_exhausted :: minimize where
  "minimize_exhausted obj x0 opt_method tolerance maxiter =
     \<lparr>success = False, fun_val = obj x0, x_val = x0,
      message = ''Maximum number of iterations has been exceeded.''\<rparr>"







lemma map2_same: "map2 h (map a xs) (map b xs) = map (\<lambda>t. h (a t) (b t)) xs"
  by (induction xs) auto


section \<open>The objective evaluator\<close>



lemma iterate_loop_exit:
  assumes major: "iterate_loop mz st = Some st'"
    and init: "I (st :: loop_state)"
    and step: "\<And>s. I s \<Longrightarrow> error s > tol (self s) \<Longrightarrow> I (loop_body mz s)"
  shows "I st' \<and> \<not> error st' > tol (self st')"
proof -
  have "m = mz \<longrightarrow> I s \<longrightarrow> I y \<and> \<not> error y > tol (self y)"
    if "iterate_loop m s = Some y" for m s y
  proof (rule iterate_loop.raw_induct[where P = "\<lambda>m s y. m = mz \<longrightarrow> I s \<longrightarrow> I y \<and> \<not> error y > tol (self y)",
                                       OF _ that])
    fix loop :: "minimize \<Rightarrow> loop_state \<Rightarrow> loop_state option" and m' s' y'
    assume IH: "\<And>a b c. loop a b = Some c \<Longrightarrow> a = mz \<longrightarrow> I b \<longrightarrow> I c \<and> \<not> error c > tol (self c)"
      and body: "(if tol (self s') < error s' then loop m' (loop_body m' s') else Some s') = Some y'"
    show "m' = mz \<longrightarrow> I s' \<longrightarrow> I y' \<and> \<not> error y' > tol (self y')"
    proof (intro impI)
      assume m: "m' = mz" and Is: "I s'"
      show "I y' \<and> \<not> error y' > tol (self y')"
      proof (cases "error s' > tol (self s')")
        case True
        then have "loop mz (loop_body mz s') = Some y'" using body m by simp
        moreover have "I (loop_body mz s')" using step[OF Is True] .
        ultimately show ?thesis using IH by blast
      next
        case False
        then have "y' = s'" using body by simp
        then show ?thesis using False Is by simp
      qed
    qed
  qed
  then show ?thesis using major init by blast
qed

lemma states_list: "[1..<n_states + 1] = [1, 2, 3]"
  by (simp add: n_states_def upt_conv_Cons)


lemma solve_state_self:
  "self (solve_state mz st k) = (self st)\<lparr>state := Some k\<rparr>"
  by (simp add: solve_state_def Let_def)

lemma solve_state_count:
  "count (solve_state mz st k) = count st"
  by (simp add: solve_state_def Let_def)

lemma loop_body_keeps:
  "same_data (self st) (self (loop_body mz st))"
  "xi (self (loop_body mz st)) = xi (self st)"
  "lower (self (loop_body mz st)) = lower (self st)"
  "count (loop_body mz st) = count st + 1"
  unfolding loop_body_def states_list
  by (simp_all add: Let_def solve_state_self solve_state_count same_data_def)

lemma same_data_refl: "same_data S S"
  by (simp add: same_data_def)

lemma same_data_trans: "same_data S S' \<Longrightarrow> same_data S' S'' \<Longrightarrow> same_data S S''"
  by (simp add: same_data_def)

lemma iterate_loop_keeps:
  assumes "iterate_loop mz st = Some st'"
  shows "same_data (self st) (self st')" and "xi (self st') = xi (self st)"
    and "lower (self st') = lower (self st)" and "error st' \<le> tol (self st')"
    and "count st \<le> count st'"
proof -
  define I where "I = (\<lambda>s :: loop_state. same_data (self st) (self s) \<and> xi (self s) = xi (self st) \<and>
                           lower (self s) = lower (self st) \<and> count st \<le> count s)"
  have "I st' \<and> \<not> error st' > tol (self st')"
    using assms
  proof (rule iterate_loop_exit)
    show "I st" by (simp add: I_def same_data_refl)
  next
    fix s assume "I s" "error s > tol (self s)"
    then show "I (loop_body mz s)"
      using loop_body_keeps[where st = s and mz = mz] by (auto simp: I_def intro: same_data_trans)
  qed
  then show "same_data (self st) (self st')" and "xi (self st') = xi (self st)"
    and "lower (self st') = lower (self st)" and "error st' \<le> tol (self st')"
    and "count st \<le> count st'"
    by (auto simp: I_def)
qed

text \<open>What a returned result mapping holds.\<close>

lemma after_loop_result:
  assumes "after_loop st = (Inr res, pr)"
  shows "the (xi (self st)) \<noteq> 0" and "count st \<noteq> 0"
    and "r_M res = fst (distortion_M (self st) (lam_1 st) (lam_2 st))"
    and "r_v res = the (v (self st))" and "r_mu res = the (mu (self st))"
    and "r_lam_1 res = lam_1 st" and "r_lam_2 res = lam_2 st" and "r_xi res = the (xi (self st))"
    and "r_count res = count st"
    and "r_E_M_cond res = E_M_cond_of (self st) (r_M res)"
    and "r_P_tilde res = P_tilde_of (self st) (r_M res)"
    and "r_P res = P_of (self st)"
    and "stationary (r_P_tilde res) = Inr (r_pi_tilde res)"
    and "stationary (r_P res) = Inr (r_pi res)"
    and "r_RE_cond res = RE_cond_of (self st) (r_M res)"
    and "r_RE res = fl_dot (r_RE_cond res) (map Fin (r_pi_tilde res))"
  using assms
  by (auto simp: after_loop_def Let_def split: if_splits sum.splits)

lemma iterate_result:
  assumes "iterate mz S \<xi> lw = Some (Inr res, S', out)"
  obtains st pr where "iterate_loop mz (loop_init S \<xi> lw) = Some st"
    and "after_loop st = (Inr res, pr)" and "S' = self st" and "out = stdout st @ pr"
    and "same_data S S'" and "xi S' = Some \<xi>" and "lower S' = Some lw" and "g S \<noteq> None"
proof -
  from assms obtain gs where gs: "g S = Some gs"
    by (cases "g S") (auto simp: iterate_def)
  from assms gs obtain st where run: "iterate_loop mz (loop_init S \<xi> lw) = Some st"
    and res: "fst (after_loop st) = Inr res" and S': "S' = self st"
    and out: "out = stdout st @ snd (after_loop st)"
    by (auto simp: iterate_def split: option.splits)
  have "same_data S S'" "xi S' = Some \<xi>" "lower S' = Some lw"
    using iterate_loop_keeps(1-3)[OF run] by (simp_all add: S' loop_init_def same_data_def)
  moreover have "after_loop st = (Inr res, snd (after_loop st))"
    using res by (metis prod.collapse)
  ultimately show ?thesis using that run S' out gs by blast
qed




lemma replicate_3: "replicate 3 a = [a, a, a]"
  by (simp add: eval_nat_numeral)

lemma replicate_4: "replicate 4 a = [a, a, a, a]"
  by (simp add: eval_nat_numeral)

lemma replicate_5: "replicate 5 a = [a, a, a, a, a]"
  by (simp add: eval_nat_numeral)

lemma replicate_12: "replicate 12 a = [a, a, a, a, a, a, a, a, a, a, a, a]"
  by (simp add: eval_nat_numeral)

lemmas list_evals = replicate_3 replicate_4 replicate_5 replicate_12

lemmas array_defs = column_def mask_select_def matvec_def dot_def vadd_def vsub_def
  np_mean_def clip_negative_def

lemma objective_numba_chain:
  assumes "k \<in> {1, 2, 3}"
  shows "objective_numba (replicate 3 (replicate 12 0)) [g1, g2, g3]
           [[True, False, False], [False, True, False], [False, False, True]]
           [[0, 1, 0], [0, 0, 1], [1, 0, 0]] k 4 [v1, v2, v3] \<xi> [a, b, c, d, e]
       = (max 0 (1 / 2 - ([g1, g2, g3] ! (k - 1) + [v2, v3, v1] ! (k - 1) + e) / \<xi>))\<^sup>2 * (\<xi> / 2) + e"
proof -
  consider "k = 1" | "k = 2" | "k = 3" using assms by auto
  then show ?thesis
  proof cases
    case 1
    then show ?thesis
      by (simp add: objective_numba_def array_defs list_evals Let_def max_def)
  next
    case 2
    then show ?thesis
      by (simp add: objective_numba_def array_defs list_evals Let_def max_def)
  next
    case 3
    then show ?thesis
      by (simp add: objective_numba_def array_defs list_evals Let_def max_def)
  qed
qed

lemma objective_chain:
  assumes cd: "chain_data S [g1, g2, g3]" and st: "state S = Some k" and k: "k \<in> {1, 2, 3}"
    and vs: "v S = Some [v1, v2, v3]" and xs: "xi S = Some \<xi>" and lw: "lower S = Some lw"
  shows "objective S [a, b, c, d, e]
       = (max 0 (1 / 2 - ((if lw then 1 else - 1) * [g1, g2, g3] ! (k - 1)
                          + [v2, v3, v1] ! (k - 1) + e) / \<xi>))\<^sup>2 * (\<xi> / 2) + e"
proof (cases lw)
  case True
  then show ?thesis
    using cd st vs xs lw objective_numba_chain[OF k, of g1 g2 g3 v1 v2 v3 \<xi> a b c d e]
    by (simp add: objective_def chain_data_def n_f_def)
next
  case False
  have neg: "[- g1, - g2, - g3] ! (k - 1) = - ([g1, g2, g3] ! (k - 1))"
    using k by auto
  have "objective S [a, b, c, d, e]
      = objective_numba (replicate 3 (replicate 12 0)) [- g1, - g2, - g3]
           [[True, False, False], [False, True, False], [False, False, True]]
           [[0, 1, 0], [0, 0, 1], [1, 0, 0]] k 4 [v1, v2, v3] \<xi> [a, b, c, d, e]"
    using False cd st vs xs lw by (simp add: objective_def chain_data_def n_f_def)
  also have "\<dots> = (max 0 (1 / 2 - (- ([g1, g2, g3] ! (k - 1)) + [v2, v3, v1] ! (k - 1) + e) / \<xi>))\<^sup>2
                     * (\<xi> / 2) + e"
    unfolding objective_numba_chain[OF k] neg ..
  finally show ?thesis
    using False by simp
qed

text \<open>The dual objective of one state of the chain as a function of \<open>\<lambda>_2\<close>.\<close>

lemma newton_step_exact:
  fixes \<xi> c :: real and \<phi> :: "real \<Rightarrow> real"
  assumes xi: "0 < \<xi>" and room: "c + 2 \<le> \<xi> / 2"
    and phi: "\<And>t. \<phi> t = (max 0 (1 / 2 - (c + t) / \<xi>))\<^sup>2 * (\<xi> / 2) + t"
  shows "1 - (\<phi> 2 - \<phi> 0) / (2 * \<phi> 2 - 4 * \<phi> 1 + 2 * \<phi> 0) = - (\<xi> / 2) - c"
    and "\<phi> (- (\<xi> / 2) - c) = - c"
proof -
  have pos: "0 \<le> 1 / 2 - (c + t) / \<xi>" if "t \<le> 2" for t
  proof -
    have "(c + t) / \<xi> \<le> (\<xi> / 2) / \<xi>"
      using that room xi by (intro divide_right_mono) auto
    then show ?thesis using xi by simp
  qed
  have val: "\<phi> t = (1 / 2 - (c + t) / \<xi>)\<^sup>2 * (\<xi> / 2) + t" if "t \<le> 2" for t
    using pos[OF that] by (simp add: phi max_def)
  have v0: "\<phi> 0 = (1 / 2 - c / \<xi>)\<^sup>2 * (\<xi> / 2)" using val[of 0] by simp
  have v1: "\<phi> 1 = (1 / 2 - (c + 1) / \<xi>)\<^sup>2 * (\<xi> / 2) + 1" using val[of 1] by simp
  have v2: "\<phi> 2 = (1 / 2 - (c + 2) / \<xi>)\<^sup>2 * (\<xi> / 2) + 2" using val[of 2] by simp
  have d2: "2 * \<phi> 2 - 4 * \<phi> 1 + 2 * \<phi> 0 = 2 / \<xi>"
    unfolding v0 v1 v2 using xi by (simp add: field_simps power2_eq_square)
  have d1: "\<phi> 2 - \<phi> 0 = 1 + 2 * (c + 1) / \<xi>"
    unfolding v0 v2 using xi by (simp add: field_simps power2_eq_square)
  show "1 - (\<phi> 2 - \<phi> 0) / (2 * \<phi> 2 - 4 * \<phi> 1 + 2 * \<phi> 0) = - (\<xi> / 2) - c"
    unfolding d1 d2 using xi by (simp add: field_simps)
  have "1 / 2 - (c + (- (\<xi> / 2) - c)) / \<xi> = 1"
    using xi by (simp add: field_simps)
  then show "\<phi> (- (\<xi> / 2) - c) = - c"
    by (simp add: phi)
qed

lemma min_objective_newton_chain:
  assumes cd: "chain_data S [g1, g2, g3]" and st: "state S = Some k" and k: "k \<in> {1, 2, 3}"
    and vs: "v S = Some [v1, v2, v3]" and xs: "xi S = Some \<xi>" and lw: "lower S = Some lw"
    and xi: "0 < \<xi>"
    and room: "(if lw then 1 else - 1) * [g1, g2, g3] ! (k - 1) + [v2, v3, v1] ! (k - 1) + 2 \<le> \<xi> / 2"
  shows "min_objective minimize_newton S
       = (((if lw then 1 else - 1) * [g1, g2, g3] ! (k - 1) + [v2, v3, v1] ! (k - 1),
           [1, 1, 1, 1],
           - \<xi> / 2 - ((if lw then 1 else - 1) * [g1, g2, g3] ! (k - 1) + [v2, v3, v1] ! (k - 1))),
          [])"
proof -
  define c where "c = (if lw then 1 else - 1) * [g1, g2, g3] ! (k - 1) + [v2, v3, v1] ! (k - 1)"
  have obj: "objective S [1, 1, 1, 1, t] = (max 0 (1 / 2 - (c + t) / \<xi>))\<^sup>2 * (\<xi> / 2) + t" for t
    unfolding objective_chain[OF cd st k vs xs lw] c_def ..
  have room': "c + 2 \<le> \<xi> / 2" using room by (simp add: c_def)
  note ns = newton_step_exact[where \<phi> = "\<lambda>t. objective S [1, 1, 1, 1, t]", OF xi room' obj]
  have "min_objective minimize_newton S = ((c, [1, 1, 1, 1], - \<xi> / 2 - c), [])"
    unfolding min_objective_def for_methods.simps minimize_newton_def n_f_def
    by (simp add: replicate_5 Let_def ns)
  then show ?thesis by (simp add: c_def)
qed

lemma solve_state_newton_chain:
  assumes cd: "chain_data (self st) [g1, g2, g3]" and k: "k \<in> {1, 2, 3}"
    and vs: "v (self st) = Some [v1, v2, v3]" and xs: "xi (self st) = Some \<xi>"
    and lw: "lower (self st) = Some lw" and xi: "0 < \<xi>"
    and room: "(if lw then 1 else - 1) * [g1, g2, g3] ! (k - 1) + [v2, v3, v1] ! (k - 1) + 2 \<le> \<xi> / 2"
  shows "solve_state minimize_newton st k =
     st\<lparr>self := (self st)\<lparr>state := Some k\<rparr>,
        v_mu := (v_mu st)[k - 1 := (if lw then 1 else - 1) * [g1, g2, g3] ! (k - 1) + [v2, v3, v1] ! (k - 1)],
        lam_1 := take ((k - 1) * 4) (lam_1 st) @ [1, 1, 1, 1] @ drop (k * 4) (lam_1 st),
        lam_2 := (lam_2 st)[k - 1 := - \<xi> / 2 - ((if lw then 1 else - 1) * [g1, g2, g3] ! (k - 1) + [v2, v3, v1] ! (k - 1))],
        stdout := stdout st\<rparr>"
proof -
  have cd': "chain_data ((self st)\<lparr>state := Some k\<rparr>) [g1, g2, g3]"
    using cd by (simp add: chain_data_def)
  have "min_objective minimize_newton ((self st)\<lparr>state := Some k\<rparr>)
       = (((if lw then 1 else - 1) * [g1, g2, g3] ! (k - 1) + [v2, v3, v1] ! (k - 1),
           [1, 1, 1, 1],
           - \<xi> / 2 - ((if lw then 1 else - 1) * [g1, g2, g3] ! (k - 1) + [v2, v3, v1] ! (k - 1))),
          [])"
    by (rule min_objective_newton_chain[OF cd' _ k _ _ _ xi room]) (simp_all add: vs xs lw)
  then show ?thesis
    by (simp add: solve_state_def Let_def n_f_def)
qed

text \<open>One pass of the loop on the chain, from the value vector \<open>[v1, v2, v3]\<close>.\<close>

lemma loop_body_newton_chain:
  assumes cd: "chain_data (self st) [g1, g2, g3]"
    and xs: "xi (self st) = Some \<xi>" and lw: "lower (self st) = Some True" and xi: "0 < \<xi>"
    and cur: "count st = 0 \<and> v1 = 0 \<and> v2 = 0 \<and> v3 = 0 \<or>
              count st \<noteq> 0 \<and> v (self st) = Some [v1, v2, v3] \<and> length (v_mu st) = 3 \<and>
              length (lam_1 st) = 12 \<and> length (lam_2 st) = 3"
    and room: "g1 + v2 + 2 \<le> \<xi> / 2" "g2 + v3 + 2 \<le> \<xi> / 2" "g3 + v1 + 2 \<le> \<xi> / 2"
  shows "loop_body minimize_newton st =
     st\<lparr>self := (self st)\<lparr>state := Some 3, mu := Some (g1 + v2),
                           v := Some [0, g2 + v3 - (g1 + v2), g3 + v1 - (g1 + v2)]\<rparr>,
        v_mu := [g1 + v2, g2 + v3, g3 + v1],
        lam_1 := replicate 12 1,
        lam_2 := [- \<xi> / 2 - (g1 + v2), - \<xi> / 2 - (g2 + v3), - \<xi> / 2 - (g3 + v1)],
        error := np_max [\<bar>0 - v1\<bar>, \<bar>g2 + v3 - (g1 + v2) - v2\<bar>, \<bar>g3 + v1 - (g1 + v2) - v3\<bar>],
        count := count st + 1,
        stdout := stdout st @ [PrintV [0, g2 + v3 - (g1 + v2), g3 + v1 - (g1 + v2)]]\<rparr>"
proof -
  define st0 where "st0 = (if count st = 0
               then st\<lparr>self := (self st)\<lparr>v := Some (replicate n_states 0)\<rparr>,
                       v_mu := replicate n_states 0,
                       lam_1 := replicate (n_states * n_f) 0,
                       lam_2 := replicate n_states 0\<rparr>
               else st)"
  have cd0: "chain_data (self st0) [g1, g2, g3]"
    using cd by (simp add: st0_def chain_data_def)
  have v0: "v (self st0) = Some [v1, v2, v3]"
    using cur by (auto simp: st0_def n_states_def replicate_3)
  have x0: "xi (self st0) = Some \<xi>" and l0: "lower (self st0) = Some True"
    using xs lw by (simp_all add: st0_def)
  have len0: "length (v_mu st0) = 3" "length (lam_1 st0) = 12" "length (lam_2 st0) = 3"
    using cur by (auto simp: st0_def n_states_def n_f_def)
  define st1 where "st1 = solve_state minimize_newton st0 1"
  have s1: "st1 = st0\<lparr>self := (self st0)\<lparr>state := Some 1\<rparr>,
        v_mu := (v_mu st0)[0 := g1 + v2],
        lam_1 := [1, 1, 1, 1] @ drop 4 (lam_1 st0),
        lam_2 := (lam_2 st0)[0 := - \<xi> / 2 - (g1 + v2)]\<rparr>"
    unfolding st1_def
    using solve_state_newton_chain[OF cd0 _ v0 x0 l0 xi, of 1] room by simp
  have cd1: "chain_data (self st1) [g1, g2, g3]"
    using cd0 by (simp add: s1 chain_data_def)
  have v1: "v (self st1) = Some [v1, v2, v3]" "xi (self st1) = Some \<xi>" "lower (self st1) = Some True"
    using v0 x0 l0 by (simp_all add: s1)
  define st2 where "st2 = solve_state minimize_newton st1 2"
  have s2: "st2 = st1\<lparr>self := (self st1)\<lparr>state := Some 2\<rparr>,
        v_mu := (v_mu st1)[1 := g2 + v3],
        lam_1 := take 4 (lam_1 st1) @ [1, 1, 1, 1] @ drop 8 (lam_1 st1),
        lam_2 := (lam_2 st1)[1 := - \<xi> / 2 - (g2 + v3)]\<rparr>"
    unfolding st2_def
    using solve_state_newton_chain[OF cd1 _ v1 xi, of 2] room by simp
  have cd2: "chain_data (self st2) [g1, g2, g3]"
    using cd1 by (simp add: s2 chain_data_def)
  have v2: "v (self st2) = Some [v1, v2, v3]" "xi (self st2) = Some \<xi>" "lower (self st2) = Some True"
    using v1 by (simp_all add: s2)
  define st3 where "st3 = solve_state minimize_newton st2 3"
  have s3: "st3 = st2\<lparr>self := (self st2)\<lparr>state := Some 3\<rparr>,
        v_mu := (v_mu st2)[2 := g3 + v1],
        lam_1 := take 8 (lam_1 st2) @ [1, 1, 1, 1] @ drop 12 (lam_1 st2),
        lam_2 := (lam_2 st2)[2 := - \<xi> / 2 - (g3 + v1)]\<rparr>"
    unfolding st3_def
    using solve_state_newton_chain[OF cd2 _ v2 xi, of 3] room by simp
  obtain a1 a2 a3 where vm: "v_mu st0 = [a1, a2, a3]"
    using len0(1) by (auto simp: length_Suc_conv eval_nat_numeral)
  obtain b1 b2 b3 where l2: "lam_2 st0 = [b1, b2, b3]"
    using len0(3) by (auto simp: length_Suc_conv eval_nat_numeral)
  obtain c1 c2 c3 c4 c5 c6 c7 c8 c9 c10 c11 c12
    where l1: "lam_1 st0 = [c1, c2, c3, c4, c5, c6, c7, c8, c9, c10, c11, c12]"
    using len0(2) by (auto simp: length_Suc_conv eval_nat_numeral)
  have fields3: "v_mu st3 = [g1 + v2, g2 + v3, g3 + v1]"
      "lam_1 st3 = replicate 12 1"
      "lam_2 st3 = [- \<xi> / 2 - (g1 + v2), - \<xi> / 2 - (g2 + v3), - \<xi> / 2 - (g3 + v1)]"
      "v (self st3) = Some [v1, v2, v3]"
      "stdout st3 = stdout st" "count st3 = count st"
      "self st3 = (self st0)\<lparr>state := Some 3\<rparr>"
    using v0 by (simp_all add: s3 s2 s1 vm l2 l1 replicate_12) (simp_all add: st0_def)
  have fold: "foldl (solve_state minimize_newton) st0 [1..<n_states + 1] = st3"
    unfolding states_list by (simp add: st3_def st2_def st1_def)
  have "loop_body minimize_newton st =
      st3\<lparr>self := (self st3)\<lparr>mu := Some (v_mu st3 ! 0),
                               v := Some (map (\<lambda>t. t - v_mu st3 ! 0) (v_mu st3))\<rparr>,
          error := np_max (map abs (vsub (map (\<lambda>t. t - v_mu st3 ! 0) (v_mu st3)) (the (v (self st3))))),
          count := count st3 + 1,
          stdout := stdout st3 @ [PrintV (map (\<lambda>t. t - v_mu st3 ! 0) (v_mu st3))]\<rparr>"
    unfolding loop_body_def st0_def[symmetric] Let_def fold ..
  also have "\<dots> = st\<lparr>self := (self st)\<lparr>state := Some 3, mu := Some (g1 + v2),
                           v := Some [0, g2 + v3 - (g1 + v2), g3 + v1 - (g1 + v2)]\<rparr>,
        v_mu := [g1 + v2, g2 + v3, g3 + v1],
        lam_1 := replicate 12 1,
        lam_2 := [- \<xi> / 2 - (g1 + v2), - \<xi> / 2 - (g2 + v3), - \<xi> / 2 - (g3 + v1)],
        error := np_max [\<bar>0 - v1\<bar>, \<bar>g2 + v3 - (g1 + v2) - v2\<bar>, \<bar>g3 + v1 - (g1 + v2) - v3\<bar>],
        count := count st + 1,
        stdout := stdout st @ [PrintV [0, g2 + v3 - (g1 + v2), g3 + v1 - (g1 + v2)]]\<rparr>"
    by (rule loop_state.equality)
       (simp_all add: fields3(1-6) vsub_def, simp_all add: fields3(7) st0_def)
  finally show ?thesis .
qed

text \<open>The chain with a constant moment \<open>c\<close>: the loop ends after one pass.\<close>

lemma chain_const_loop:
  assumes cd: "chain_data S [c, c, c]" and xi: "0 < \<xi>" and room: "c + 2 \<le> \<xi> / 2"
  shows "iterate_loop minimize_newton (loop_init S \<xi> True) =
     Some \<lparr>self = S\<lparr>xi := Some \<xi>, lower := Some True, state := Some 3, mu := Some c,
                     v := Some [0, 0, 0]\<rparr>,
           v_mu = [c, c, c], lam_1 = replicate 12 1,
           lam_2 = [- \<xi> / 2 - c, - \<xi> / 2 - c, - \<xi> / 2 - c],
           error = 0, count = 1, stdout = [PrintV [0, 0, 0]]\<rparr>"
proof -
  define st0 where "st0 = loop_init S \<xi> True"
  define st1 where "st1 = loop_body minimize_newton st0"
  have cd0: "chain_data (self st0) [c, c, c]"
    using cd by (simp add: st0_def loop_init_def chain_data_def)
  have b: "st1 = st0\<lparr>self := (self st0)\<lparr>state := Some 3, mu := Some (c + 0),
                           v := Some [0, c + 0 - (c + 0), c + 0 - (c + 0)]\<rparr>,
        v_mu := [c + 0, c + 0, c + 0],
        lam_1 := replicate 12 1,
        lam_2 := [- \<xi> / 2 - (c + 0), - \<xi> / 2 - (c + 0), - \<xi> / 2 - (c + 0)],
        error := np_max [\<bar>0 - 0\<bar>, \<bar>c + 0 - (c + 0) - 0\<bar>, \<bar>c + 0 - (c + 0) - 0\<bar>],
        count := count st0 + 1,
        stdout := stdout st0 @ [PrintV [0, c + 0 - (c + 0), c + 0 - (c + 0)]]\<rparr>"
    unfolding st1_def
    by (rule loop_body_newton_chain[OF cd0 _ _ xi])
       (use room in \<open>simp_all add: st0_def loop_init_def\<close>)
  have st1: "st1 = \<lparr>self = S\<lparr>xi := Some \<xi>, lower := Some True, state := Some 3, mu := Some c,
                     v := Some [0, 0, 0]\<rparr>,
           v_mu = [c, c, c], lam_1 = replicate 12 1,
           lam_2 = [- \<xi> / 2 - c, - \<xi> / 2 - c, - \<xi> / 2 - c],
           error = 0, count = 1, stdout = [PrintV [0, 0, 0]]\<rparr>"
    unfolding b by (simp add: st0_def loop_init_def np_max_def)
  have t0: "tol (self st0) = 1 / 100000000" "error st0 = 1"
    using cd by (simp_all add: st0_def loop_init_def chain_data_def)
  have t1: "tol (self st1) = 1 / 100000000" "error st1 = 0"
    using cd by (simp_all add: st1 chain_data_def)
  have "iterate_loop minimize_newton st0 = iterate_loop minimize_newton st1"
    by (subst iterate_loop.simps) (simp add: t0 st1_def)
  also have "\<dots> = Some st1"
    by (subst iterate_loop.simps) (simp add: t1)
  finally show ?thesis
    unfolding st0_def st1 .
qed

lemma states_eval: "states = [1, 2, 3]"
  unfolding states_def states_list ..

lemma upt_3: "[0..<3] = [0, 1, 2]"
  by (simp add: upt_rec)

lemma chain_distortion:
  assumes cd: "chain_data S [c, c, c]" and xi: "0 < \<xi>"
    and S: "xi S = Some \<xi>" "lower S = Some True" "mu S = Some c" "v S = Some [0, 0, 0]"
  defines "a \<equiv> - \<xi> / 2 - c"
  shows "distortion_M S (replicate 12 1) [a, a, a]
       = (replicate 3 (max 0 (1 + c / \<xi>)), [PrintInner [a, a, a]])"
proof -
  have inner: "M_inner S [c, c, c] (replicate 12 1) [a, a, a] = [a, a, a]"
    using cd S
    by (simp add: M_inner_def chain_data_def astype_float_def array_defs list_evals a_def)
  have key: "0.5 - 1 / \<xi> * a = 1 + c / \<xi>"
    using xi by (simp add: a_def field_simps)
  have clipped: "clip_negative (map (\<lambda>t. 0.5 - 1 / \<xi> * t) [a, a, a])
               = replicate 3 (max 0 (1 + c / \<xi>))"
    unfolding list.map key by (simp add: clip_negative_def max_def list_evals)
  have "the (lower S)" "the (g S) = [c, c, c]" "the (xi S) = \<xi>"
    using cd S by (simp_all add: chain_data_def)
  then show ?thesis
    unfolding distortion_M_def by (simp only: inner clipped if_True)
qed

lemma chain_tables:
  assumes cd: "chain_data S gs"
  shows "E_M_cond_of S [m, m, m] = [m, m, m]"
    and "P_tilde_of S [m, m, m] = [[0, m, 0], [0, 0, m], [m, 0, 0]]"
    and "P_of S = [[0, 1, 0], [0, 0, 1], [1, 0, 0]]"
    and "RE_cond_of S [m, m, m] = replicate 3 (fl_mean [fl_mult (Fin m) (np_log m)])"
  using cd
  by (simp_all add: E_M_cond_of_def P_tilde_of_def P_of_def RE_cond_of_def states_eval
        state_rows_def chain_data_def array_defs list_evals)

lemma stationary_chain:
  fixes m :: real
  assumes "0 \<le> m"
  shows "stationary [[0, m, 0], [0, 0, m], [m, 0, 0]]
       = Inr [m / (m\<^sup>2 + m + 1), m\<^sup>2 / (m\<^sup>2 + m + 1), 1 / (m\<^sup>2 + m + 1)]"
proof -
  have A: "(map2 vsub (transpose [[0, m, 0], [0, 0, m], [m, 0, 0]]) (eye n_states))
             [length (map2 vsub (transpose [[0, m, 0], [0, 0, m], [m, 0, 0]]) (eye n_states)) - 1
               := replicate n_states 1]
         = [[- 1, 0, m], [m, - 1, 0], [1, 1, 1]]"
    by (simp add: transpose.simps eye_def n_states_def vsub_def upt_conv_Cons list_evals)
  have B: "(replicate n_states 0)[length (replicate n_states (0::real)) - 1 := 1] = [0, 0, 1::real]"
    by (simp add: n_states_def list_evals)
  have D: "det3 [[- 1, 0, m], [m, - 1, 0], [1, 1, 1]] = m\<^sup>2 + m + 1"
    by (simp add: det3_def power2_eq_square algebra_simps)
  have D0: "det3 (replace_column [[- 1, 0, m], [m, - 1, 0], [1, 1, 1]] 0 [0, 0, 1]) = m"
    by (simp add: det3_def replace_column_def)
  have D1: "det3 (replace_column [[- 1, 0, m], [m, - 1, 0], [1, 1, 1]] 1 [0, 0, 1]) = m\<^sup>2"
    by (simp add: det3_def replace_column_def power2_eq_square)
  have D2: "det3 (replace_column [[- 1, 0, m], [m, - 1, 0], [1, 1, 1]] 2 [0, 0, 1]) = 1"
    by (simp add: det3_def replace_column_def)
  have pos: "m\<^sup>2 + m + 1 \<noteq> 0"
    using assms by (smt (verit) zero_le_power2)
  have shape: "length [[- 1, 0, m], [m, - 1, 0], [1, 1, 1]] = 3 \<and>
      list_all (\<lambda>row. length row = 3) [[- 1, 0, m], [m, - 1, 0], [1, 1, 1]] \<and>
      length [0, 0, 1::real] = 3"
    by simp
  show ?thesis
    unfolding stationary_def Let_def A B linalg_solve_def upt_3 list.map D D0 D1 D2
    using pos shape by simp
qed

lemma fl_mean_single_zero: "fl_mean [fl_mult (Fin 0) (np_log 0)] = NaN"
  by (simp add: fl_mean_def fl_sum_def np_log_def)

lemma fl_dot_NaN3: "fl_dot [NaN, NaN, NaN] (map Fin [p, q, r]) = NaN"
  by (simp add: fl_dot_def fl_sum_def)

lemma chain_const_iterate:
  assumes cd: "chain_data S [c, c, c]" and xi: "0 < \<xi>" and room: "c + 2 \<le> \<xi> / 2"
  defines "m \<equiv> max 0 (1 + c / \<xi>)"
  shows "\<exists>res pr. iterate minimize_newton S \<xi> True =
            Some (Inr res, S\<lparr>xi := Some \<xi>, lower := Some True, state := Some 3, mu := Some c,
                             v := Some [0, 0, 0]\<rparr>, pr) \<and>
          r_M res = [m, m, m] \<and> r_v res = [0, 0, 0] \<and> r_mu res = c \<and>
          r_E_M_cond res = [m, m, m] \<and>
          r_P_tilde res = [[0, m, 0], [0, 0, m], [m, 0, 0]] \<and>
          r_P res = [[0, 1, 0], [0, 0, 1], [1, 0, 0]] \<and>
          r_pi_tilde res = [m / (m\<^sup>2 + m + 1), m\<^sup>2 / (m\<^sup>2 + m + 1), 1 / (m\<^sup>2 + m + 1)] \<and>
          r_RE_cond res = replicate 3 (fl_mean [fl_mult (Fin m) (np_log m)]) \<and>
          r_RE res = fl_dot (r_RE_cond res) (map Fin (r_pi_tilde res))"
proof -
  define S' where "S' = S\<lparr>xi := Some \<xi>, lower := Some True, state := Some 3, mu := Some c,
                             v := Some [0, 0, 0]\<rparr>"
  define a where "a = - \<xi> / 2 - c"
  define stF where "stF = \<lparr>self = S', v_mu = [c, c, c], lam_1 = replicate 12 1, lam_2 = [a, a, a],
           error = 0, count = 1, stdout = [PrintV [0, 0, 0]]\<rparr>"
  have loop: "iterate_loop minimize_newton (loop_init S \<xi> True) = Some stF"
    unfolding stF_def S'_def a_def by (rule chain_const_loop[OF cd xi room])
  have cd': "chain_data S' [c, c, c]"
    using cd by (simp add: S'_def chain_data_def)
  have S'f: "xi S' = Some \<xi>" "lower S' = Some True" "mu S' = Some c" "v S' = Some [0, 0, 0]"
    by (simp_all add: S'_def)
  have m0: "0 \<le> m" by (simp add: m_def)
  have M: "distortion_M S' (replicate 12 1) [a, a, a] = ([m, m, m], [PrintInner [a, a, a]])"
    using chain_distortion[OF cd' xi S'f] by (simp add: a_def m_def list_evals)
  have statP: "stationary [[0, 1, 0], [0, 0, 1], [1, 0, 0]] = Inr [1 / 3, 1 / 3, 1 / 3]"
    using stationary_chain[of 1] by simp
  have "\<exists>res pr. after_loop stF = (Inr res, pr)"
    using xi
    by (simp add: after_loop_def Let_def stF_def S'f M chain_tables[OF cd'] stationary_chain[OF m0] statP)
  then obtain res pr where aft: "after_loop stF = (Inr res, pr)" by blast
  note r = after_loop_result[OF aft]
  have rM: "r_M res = [m, m, m]"
    using r(3) by (simp add: stF_def M)
  have self: "self stF = S'" by (simp add: stF_def)
  have "iterate minimize_newton S \<xi> True = Some (Inr res, S', stdout stF @ pr)"
    using cd loop aft by (simp add: iterate_def chain_data_def self)
  moreover have "r_v res = [0, 0, 0]" "r_mu res = c"
    using r(4,5) by (simp_all add: self S'f)
  moreover have "r_E_M_cond res = [m, m, m]" "r_P_tilde res = [[0, m, 0], [0, 0, m], [m, 0, 0]]"
    "r_P res = [[0, 1, 0], [0, 0, 1], [1, 0, 0]]"
    "r_RE_cond res = replicate 3 (fl_mean [fl_mult (Fin m) (np_log m)])"
    using r(10,11,12,15) by (simp_all add: self rM chain_tables[OF cd'])
  moreover from this have "r_pi_tilde res = [m / (m\<^sup>2 + m + 1), m\<^sup>2 / (m\<^sup>2 + m + 1), 1 / (m\<^sup>2 + m + 1)]"
    using r(13) stationary_chain[OF m0] by simp
  ultimately show ?thesis
    using rM r(16) unfolding S'_def by blast
qed

section \<open>The configuration error\<close>

text \<open>
  C7. When the moment vector \<open>g\<close> is not set, \<^verbatim>\<open>iterate\<close> raises the configuration error
  at once: it returns no result mapping, prints nothing and leaves the solver as it was
  (\<open>\<xi>\<close>, the mode flag, \<open>v\<close> and \<open>\<mu>\<close> included; \<open>\<lambda>\<close> is local to the call).
\<close>

theorem iterate_g_not_defined:
  "g S = None \<Longrightarrow> iterate mz S \<xi> lw = Some (Inl GNotDefined, S, [])"
  by (simp add: iterate_def)

theorem iterate_g_not_defined_witness:
  "iterate minimize_newton ((chain_solver [0, 1, 0])\<lparr>g := None\<rparr>) 100 True
     = Some (Inl GNotDefined, (chain_solver [0, 1, 0])\<lparr>g := None\<rparr>, [])"
  by (rule iterate_g_not_defined) simp

section \<open>The per-state solver\<close>

text \<open>
  C6. The per-state solver runs the three methods in the order L-BFGS-B, BFGS, CG, each
  from the all-ones vector of length \<open>n_f + 1\<close> with the solver's tolerance and iteration
  bound, and takes the first result that reports success, the result of the last method
  when none does. It prints the warning with \<open>\<xi>\<close> and the tolerance exactly when all three
  fail. It returns minus the objective value of that result, all but the last component
  of its point and the last component.
\<close>

theorem min_objective_fallback:
  "let run = (\<lambda>m. mz (objective S) (replicate (n_f + 1) 1) m (tol S) (max_iter S));
       model = (if success (run L_BFGS_B) then run L_BFGS_B
                else if success (run BFGS) then run BFGS else run CG)
   in min_objective mz S =
        ((- fun_val model, butlast (x_val model), last (x_val model)),
         if success model then []
         else [SolverWarning (the (xi S)) (tol S), SolverMessage (message model)]) \<and>
      (success model \<longleftrightarrow> success (run L_BFGS_B) \<or> success (run BFGS) \<or> success (run CG)) \<and>
      (length (x_val model) = n_f + 1 \<longrightarrow>
         butlast (x_val model) = take n_f (x_val model) \<and>
         last (x_val model) = x_val model ! n_f)"
proof -
  have "butlast xs = take n_f xs \<and> last xs = xs ! n_f" if "length xs = n_f + 1" for xs :: "real list"
    using that by (cases xs rule: rev_cases) (auto simp: nth_append)
  then show ?thesis
    by (simp add: min_objective_def Let_def)
qed

theorem min_objective_fallback_witness:
  "min_objective minimize_exhausted
     ((chain_solver [0, 1, 0])\<lparr>xi := Some 100, lower := Some True, v := Some [0, 0, 0],
                               state := Some 2\<rparr>)
   = ((- (2304 / 10000 * 50 + 1), [1, 1, 1, 1], 1),
      [SolverWarning 100 (1 / 100000000),
       SolverMessage ''Maximum number of iterations has been exceeded.''])"
proof -
  define S where "S = (chain_solver [0, 1, 0])\<lparr>xi := Some 100, lower := Some True,
                        v := Some [0, 0, 0], state := Some 2\<rparr>"
  have cd: "chain_data S [0, 1, 0]"
    by (simp add: S_def chain_solver_def chain_data_def)
  have obj: "objective S [1, 1, 1, 1, 1] = 2304 / 10000 * 50 + 1"
    using objective_chain[OF cd, of 2 0 0 0 100 True 1 1 1 1 1]
    by (simp add: S_def power2_eq_square)
  show ?thesis
    using min_objective_fallback[of minimize_exhausted S] obj
    unfolding S_def[symmetric]
    by (simp add: Let_def minimize_exhausted_def list_evals n_f_def S_def chain_solver_def)
qed

section \<open>The outer update\<close>




section \<open>The distortion\<close>












lemma clip_negative_nonneg: "\<forall>m\<in>set (clip_negative xs). 0 \<le> m"
  by (auto simp: clip_negative_def)

lemma distortion_M_nonneg: "\<forall>m\<in>set (fst (distortion_M S l1 l2)). 0 \<le> m"
  by (simp add: distortion_M_def clip_negative_nonneg)




lemma chain_solver_data: "chain_data (chain_solver gs) gs"
  by (simp add: chain_data_def chain_solver_def)


section \<open>The relative entropy where the distortion is zero\<close>

lemma fl_add_NaN [simp]: "fl_add a NaN = NaN"
  by (cases a) simp_all

lemma foldl_fl_add_NaN: "foldl fl_add NaN xs = NaN"
  by (induction xs) simp_all

lemma fl_sum_NaN:
  assumes "NaN \<in> set xs"
  shows "fl_sum xs = NaN"
proof -
  have "foldl fl_add a xs = NaN" for a
    using assms
  proof (induction xs arbitrary: a)
    case Nil
    then show ?case by simp
  next
    case (Cons y ys)
    show ?case
    proof (cases "y = NaN")
      case True
      then show ?thesis by (simp add: foldl_fl_add_NaN)
    next
      case False
      then show ?thesis using Cons by simp
    qed
  qed
  then show ?thesis by (simp add: fl_sum_def)
qed

lemma fl_mean_NaN: "NaN \<in> set xs \<Longrightarrow> fl_mean xs = NaN"
  by (simp add: fl_mean_def fl_sum_NaN)

lemma fl_dot_NaN:
  assumes "j < length xs" "j < length ys" "xs ! j = NaN"
  shows "fl_dot xs ys = NaN"
proof -
  have "map2 fl_mult xs ys ! j = NaN" using assms by simp
  moreover have "j < length (map2 fl_mult xs ys)" using assms by simp
  ultimately have "NaN \<in> set (map2 fl_mult xs ys)" by (metis nth_mem)
  then show ?thesis by (simp add: fl_dot_def fl_sum_NaN)
qed

lemma fl_mult_log_zero: "fl_mult (Fin 0) (np_log 0) = NaN"
  by (simp add: np_log_def)

lemma fl_mult_log_pos: "0 < m \<Longrightarrow> fl_mult (Fin m) (np_log m) = Fin (m * ln m)"
  by (simp add: np_log_def)

lemma RE_cond_zero:
  assumes "0 \<in> set (state_rows S i M)"
  shows "fl_mean (map2 fl_mult (map Fin (state_rows S i M)) (map np_log (state_rows S i M))) = NaN"
proof -
  have "map2 fl_mult (map Fin (state_rows S i M)) (map np_log (state_rows S i M))
      = map (\<lambda>m. fl_mult (Fin m) (np_log m)) (state_rows S i M)"
    by (rule map2_same)
  moreover have "NaN \<in> set (map (\<lambda>m. fl_mult (Fin m) (np_log m)) (state_rows S i M))"
    using assms fl_mult_log_zero by force
  ultimately show ?thesis by (simp add: fl_mean_NaN)
qed

lemma stationary_length: "stationary Pm = Inr p \<Longrightarrow> length p = 3"
  by (auto simp: stationary_def linalg_solve_def Let_def split: if_splits)

text \<open>
  C10. In a result mapping of \<^verbatim>\<open>iterate\<close>: when \<open>M\<close> is 0 on a row of a state, the
  conditional relative entropy of that state, the mean of \<open>M log M\<close> over its rows, is NaN
  (\<open>0 \<cdot> log 0\<close>), and so is the relative entropy \<open>RE\<close>. With \<open>M\<close> nonnegative, \<open>RE\<close> is a
  finite number only when \<open>M\<close> is positive on every row of every state.
\<close>

theorem iterate_RE_undefined:
  assumes run: "iterate mz S \<xi> lw = Some (Inr res, S', out)"
  shows "(\<forall>i\<in>{1, 2, 3}. 0 \<in> set (state_rows S i (r_M res)) \<longrightarrow>
            r_RE_cond res ! (i - 1) = NaN \<and> r_RE res = NaN) \<and>
         ((\<exists>r. r_RE res = Fin r) \<longrightarrow>
            (\<forall>i\<in>{1, 2, 3}. \<forall>m\<in>set (state_rows S i (r_M res)). 0 < m))"
proof -
  from run obtain st pr where aft: "after_loop st = (Inr res, pr)" and S': "S' = self st"
    and same: "same_data S S'"
    by (rule iterate_result)
  note r = after_loop_result[OF aft]
  have rows: "state_rows S' i a = state_rows S i a" for i and a :: "real list"
    using same by (simp add: state_rows_def same_data_def)
  have cond: "r_RE_cond res =
      map (\<lambda>i. fl_mean (map2 fl_mult (map Fin (state_rows S i (r_M res)))
                                     (map np_log (state_rows S i (r_M res))))) [1, 2, 3]"
    using r(15) by (simp add: RE_cond_of_def S'[symmetric] rows states_eval)
  have len: "length (r_pi_tilde res) = 3"
    using r(13) by (rule stationary_length)
  have nonneg: "\<forall>m\<in>set (r_M res). 0 \<le> m"
    unfolding r(3) by (rule distortion_M_nonneg)
  have zero: "r_RE_cond res ! (i - 1) = NaN \<and> r_RE res = NaN"
    if i: "i \<in> {1, 2, 3}" and z: "0 \<in> set (state_rows S i (r_M res))" for i
  proof -
    have c: "r_RE_cond res ! (i - 1) = NaN"
      using i RE_cond_zero[OF z] by (auto simp: cond)
    have "i - 1 < length (r_RE_cond res)" "i - 1 < length (map Fin (r_pi_tilde res))"
      using i len by (auto simp: cond)
    then have "fl_dot (r_RE_cond res) (map Fin (r_pi_tilde res)) = NaN"
      using c by (rule fl_dot_NaN)
    then show ?thesis using c r(16) by simp
  qed
  have sub: "set (state_rows S i (r_M res)) \<subseteq> set (r_M res)" for i
    by (auto simp: state_rows_def mask_select_def dest: set_zip_rightD)
  have pos: "\<forall>i\<in>{1, 2, 3}. \<forall>m\<in>set (state_rows S i (r_M res)). 0 < m" if "r_RE res = Fin q" for q
  proof (intro ballI)
    fix i m assume i: "i \<in> {1, 2, 3}" and m: "m \<in> set (state_rows S i (r_M res))"
    have "m \<noteq> 0" using zero[OF i] m that by auto
    moreover have "0 \<le> m" using nonneg sub m by blast
    ultimately show "0 < m" by simp
  qed
  show ?thesis
  proof (intro conjI ballI impI)
    fix i assume "i \<in> {1, 2, 3::nat}" "0 \<in> set (state_rows S i (r_M res))"
    then show "r_RE_cond res ! (i - 1) = NaN" "r_RE res = NaN"
      using zero by simp_all
  next
    fix i m assume "\<exists>r. r_RE res = Fin r" "i \<in> {1, 2, 3::nat}" "m \<in> set (state_rows S i (r_M res))"
    then show "0 < m" using pos by blast
  qed
qed

theorem iterate_RE_undefined_witness:
  "\<exists>res S' out.
     iterate minimize_newton (chain_solver [- 100, - 100, - 100]) 100 True = Some (Inr res, S', out) \<and>
     r_M res = [0, 0, 0] \<and>
     0 \<in> set (state_rows (chain_solver [- 100, - 100, - 100]) 2 (r_M res)) \<and>
     r_RE_cond res ! 1 = NaN \<and> r_RE res = NaN"
proof -
  have xi: "(0::real) < 100" and room: "(- 100::real) + 2 \<le> 100 / 2" by simp_all
  from chain_const_iterate[OF chain_solver_data xi room]
  obtain res pr where run: "iterate minimize_newton (chain_solver [- 100, - 100, - 100]) 100 True =
            Some (Inr res, (chain_solver [- 100, - 100, - 100])\<lparr>xi := Some 100, lower := Some True,
                     state := Some 3, mu := Some (- 100), v := Some [0, 0, 0]\<rparr>, pr)"
    and M': "r_M res = [max 0 (1 + - 100 / 100), max 0 (1 + - 100 / 100), max 0 (1 + - 100 / 100)]"
    by blast
  have M0: "r_M res = [0, 0, 0]" using M' by simp
  have z: "0 \<in> set (state_rows (chain_solver [- 100, - 100, - 100]) 2 (r_M res))"
    by (simp add: M0 state_rows_def chain_solver_def column_def mask_select_def)
  have "\<forall>i\<in>{1, 2, 3}. 0 \<in> set (state_rows (chain_solver [- 100, - 100, - 100]) i (r_M res)) \<longrightarrow>
            r_RE_cond res ! (i - 1) = NaN \<and> r_RE res = NaN"
    using iterate_RE_undefined[OF run] by (rule conjunct1)
  then have "r_RE_cond res ! (2 - 1) = NaN \<and> r_RE res = NaN"
    using z by simp
  then have "r_RE_cond res ! 1 = NaN" "r_RE res = NaN" by simp_all
  then show ?thesis using run M0 z by blast
qed

section \<open>The transition matrices\<close>












section \<open>The outer loop has no cap\<close>











section \<open>The bisection\<close>


text \<open>One pass of the loop of \<^verbatim>\<open>find_\<xi>\<close>, from the locals the pass works with.\<close>

lemma find_xi_for_pass:
  assumes "(if i = 0 then Some (1, 0, 100) else vars) = Some (\<xi>, lo, hi)"
  shows "find_xi_for mz x lw tol_b mx min_RE (i # rest) vars cnt S pr =
    (case iterate mz S \<xi> lw of
       None \<Rightarrow> None
     | Some (Inl e, S', pr') \<Rightarrow> Some (Inl e, S', pr @ pr')
     | Some (Inr res, S', pr') \<Rightarrow>
        (if fl_less (fl_abs (fl_sub (fl_div (r_RE res) min_RE) (Fin x))) (Fin tol_b)
         then Some (Inr (Some (\<xi>, lo, hi), cnt), S', pr @ pr')
         else find_xi_for mz x lw tol_b mx min_RE rest
                (if fl_less (fl_sub (fl_div (r_RE res) min_RE) (Fin x)) (Fin 0)
                 then Some ((lo + \<xi>) / 2, lo, \<xi>) else Some ((\<xi> + hi) / 2, \<xi>, hi))
                (cnt + 1) S'
                (pr @ pr' @ (if cnt + 1 = mx
                             then [MaxIterReached (fl_sub (fl_div (r_RE res) min_RE) (Fin x))]
                             else []))))"
  using assms
  by (simp add: Let_def split: option.splits sum.splits prod.splits)

text \<open>What \<^verbatim>\<open>return \<xi>\<close> makes of the loop's outcome.\<close>

lemma find_xi_unfold:
  "find_xi mz S x lw tol_b mx =
    (case iterate mz S 100 lw of
       None \<Rightarrow> None
     | Some (Inl e, S', pr) \<Rightarrow> Some (Inl e, S', pr)
     | Some (Inr res, S', pr) \<Rightarrow>
        (case find_xi_for mz x lw tol_b mx (r_RE res) [0..<mx] None 0 S' pr of
           None \<Rightarrow> None
         | Some (Inl e, S'', pr') \<Rightarrow> Some (Inl e, S'', pr')
         | Some (Inr (None, cnt), S'', pr') \<Rightarrow> Some (Inl UnboundLocalError, S'', pr')
         | Some (Inr (Some (\<xi>, lower_bound, upper_bound), cnt), S'', pr') \<Rightarrow>
             Some (Inr \<xi>, S'', pr')))"
  by (simp add: find_xi_def)

lemma find_xi_for_spec:
  assumes "(case idx of [] \<Rightarrow> vars | i # rest \<Rightarrow> if i = 0 then Some (1, 0, 100) else vars)
             = Some (\<xi>, lo, hi)"
    and "0 \<notin> set (tl idx)"
  shows "(case find_xi_for mz x lw tol_b mx min_RE idx vars cnt S pr of
            None \<Rightarrow> None
          | Some (Inl e, S'', pr') \<Rightarrow> Some (Inl e)
          | Some (Inr (None, c), S'', pr') \<Rightarrow> Some (Inl UnboundLocalError)
          | Some (Inr (Some (\<xi>', lo', hi'), c), S'', pr') \<Rightarrow> Some (Inr \<xi>'))
       = spec_bisect mz x lw tol_b min_RE (length idx) \<xi> lo hi S"
  using assms
proof (induction idx arbitrary: vars \<xi> lo hi cnt S pr)
  case Nil
  then show ?case by simp
next
  case (Cons i rest)
  have start: "(if i = 0 then Some (1, 0, 100) else vars) = Some (\<xi>, lo, hi)"
    using Cons.prems(1) by simp
  have tail: "0 \<notin> set (tl rest)" "rest = [] \<or> hd rest \<noteq> 0"
    using Cons.prems(2) by (cases rest; auto)+
  have IH: "(case find_xi_for mz x lw tol_b mx min_RE rest (Some (a, b, c)) cnt' S' pr' of
            None \<Rightarrow> None
          | Some (Inl e, S'', pr') \<Rightarrow> Some (Inl e)
          | Some (Inr (None, c), S'', pr') \<Rightarrow> Some (Inl UnboundLocalError)
          | Some (Inr (Some (\<xi>', lo', hi'), c), S'', pr') \<Rightarrow> Some (Inr \<xi>'))
       = spec_bisect mz x lw tol_b min_RE (length rest) a b c S'" for a b c cnt' S' pr'
    by (rule Cons.IH) (use tail in \<open>auto split: list.splits\<close>)
  show ?case
  proof (cases "iterate mz S \<xi> lw")
    case None
    then show ?thesis by (simp add: find_xi_for_pass[OF start] del: find_xi_for.simps)
  next
    case (Some r)
    obtain out S' pr' where r: "r = (out, S', pr')" by (cases r)
    show ?thesis
    proof (cases out)
      case (Inl e)
      then show ?thesis using Some r by (simp add: find_xi_for_pass[OF start] del: find_xi_for.simps)
    next
      case (Inr res)
      define err where "err = fl_sub (fl_div (r_RE res) min_RE) (Fin x)"
      show ?thesis
      proof (cases "fl_less (fl_abs err) (Fin tol_b)")
        case True
        then show ?thesis
          using Some r Inr by (simp add: find_xi_for_pass[OF start] err_def del: find_xi_for.simps)
      next
        case False
        show ?thesis
        proof (cases "fl_less err (Fin 0)")
          case True
          then show ?thesis
            using Some r Inr False
            by (simp add: find_xi_for_pass[OF start] err_def[symmetric] IH Let_def del: find_xi_for.simps)
        next
          case neg: False
          then show ?thesis
            using Some r Inr False
            by (simp add: find_xi_for_pass[OF start] err_def[symmetric] IH Let_def del: find_xi_for.simps)
        qed
      qed
    qed
  qed
qed

text \<open>
  C4. With at least one pass allowed, \<^verbatim>\<open>find_\<xi>\<close> returns what the bisection of the
  specification returns: \<open>min_RE\<close> is the relative entropy of \<^verbatim>\<open>iterate\<close> at 100; the
  search starts at \<open>\<xi> = 1\<close> with the bracket \<open>[0, 100]\<close>; a step runs \<^verbatim>\<open>iterate\<close> at \<open>\<xi>\<close>,
  takes \<open>error = RE/min_RE - x\<close> and returns \<open>\<xi>\<close> when \<open>|error| < tolerance\<close>; otherwise,
  when \<open>error < 0\<close>, the upper bound becomes \<open>\<xi>\<close> and \<open>\<xi>\<close> the midpoint with the lower
  bound, else the lower bound becomes \<open>\<xi>\<close> and \<open>\<xi>\<close> the midpoint with the upper bound.
\<close>

theorem find_xi_bisection:
  assumes "0 < mx"
  shows "map_option fst (find_xi mz S x lw tol_b mx) = spec_find_xi mz S x lw tol_b mx"
proof -
  have idx: "[0..<mx] = 0 # [1..<mx]"
    using assms by (simp add: upt_conv_Cons)
  have len: "length [0..<mx] = mx" by simp
  have loop: "(case find_xi_for mz x lw tol_b mx min_RE [0..<mx] None 0 S' pr of
            None \<Rightarrow> None
          | Some (Inl e, S'', pr') \<Rightarrow> Some (Inl e)
          | Some (Inr (None, c), S'', pr') \<Rightarrow> Some (Inl UnboundLocalError)
          | Some (Inr (Some (\<xi>', lo', hi'), c), S'', pr') \<Rightarrow> Some (Inr \<xi>'))
       = spec_bisect mz x lw tol_b min_RE mx 1 0 100 S'" for min_RE S' pr
    using find_xi_for_spec[where idx = "[0..<mx]" and vars = None and \<xi> = 1 and lo = 0
        and hi = 100 and mz = mz and x = x and lw = lw and tol_b = tol_b and mx = mx
        and min_RE = min_RE and cnt = 0 and S = S' and pr = pr]
    unfolding len by (simp add: idx)
  show ?thesis
  proof (cases "iterate mz S 100 lw")
    case None
    then show ?thesis by (simp add: find_xi_unfold spec_find_xi_def)
  next
    case (Some r)
    obtain out S' pr where r: "r = (out, S', pr)" by (cases r)
    show ?thesis
    proof (cases out)
      case (Inl e)
      then show ?thesis using Some r by (simp add: find_xi_unfold spec_find_xi_def)
    next
      case (Inr res)
      define R where "R = find_xi_for mz x lw tol_b mx (r_RE res) [0..<mx] None 0 S' pr"
      have "map_option fst (find_xi mz S x lw tol_b mx)
          = (case R of
               None \<Rightarrow> None
             | Some (Inl e, S'', pr') \<Rightarrow> Some (Inl e)
             | Some (Inr (None, c), S'', pr') \<Rightarrow> Some (Inl UnboundLocalError)
             | Some (Inr (Some (\<xi>', lo', hi'), c), S'', pr') \<Rightarrow> Some (Inr \<xi>'))"
        unfolding find_xi_unfold using Some r Inr
        by (simp add: R_def[symmetric] split: option.splits sum.splits prod.splits)
      also have "\<dots> = spec_bisect mz x lw tol_b (r_RE res) mx 1 0 100 S'"
        unfolding R_def by (rule loop)
      also have "\<dots> = spec_find_xi mz S x lw tol_b mx"
        using Some r Inr by (simp add: spec_find_xi_def)
      finally show ?thesis .
    qed
  qed
qed

text \<open>The chain with the moment -100 in every period: \<open>M\<close> is 0 and the relative
  entropy NaN, for every \<open>\<xi>\<close> up to 100.\<close>

lemma chain_neg_iterate:
  assumes cd: "chain_data S [- 100, - 100, - 100]" and xi: "0 < \<xi>" and le: "\<xi> \<le> 100"
  shows "\<exists>res pr. iterate minimize_newton S \<xi> True =
            Some (Inr res, S\<lparr>xi := Some \<xi>, lower := Some True, state := Some 3,
                             mu := Some (- 100), v := Some [0, 0, 0]\<rparr>, pr) \<and>
          r_RE res = NaN"
proof -
  have room: "(- 100::real) + 2 \<le> \<xi> / 2" using xi by simp
  have m: "max 0 (1 + - 100 / \<xi>) = 0"
    using xi le by (simp add: field_simps)
  from chain_const_iterate[OF cd xi room, unfolded m]
  obtain res pr where run: "iterate minimize_newton S \<xi> True =
            Some (Inr res, S\<lparr>xi := Some \<xi>, lower := Some True, state := Some 3,
                             mu := Some (- 100), v := Some [0, 0, 0]\<rparr>, pr)"
    and cond: "r_RE_cond res = replicate 3 (fl_mean [fl_mult (Fin 0) (np_log 0)])"
    and pt: "r_pi_tilde res = [0 / (0\<^sup>2 + 0 + 1), 0\<^sup>2 / (0\<^sup>2 + 0 + 1), 1 / (0\<^sup>2 + 0 + 1)]"
    and RE: "r_RE res = fl_dot (r_RE_cond res) (map Fin (r_pi_tilde res))"
    by blast
  have "r_RE res = NaN"
    unfolding RE cond pt fl_mean_single_zero replicate_3 by (rule fl_dot_NaN3)
  then show ?thesis using run by blast
qed

lemma chain_data_after:
  "chain_data S gs \<Longrightarrow>
   chain_data (S\<lparr>xi := a, lower := b, state := c, mu := d, v := e\<rparr>) gs"
  by (simp add: chain_data_def)

text \<open>\<^verbatim>\<open>find_\<xi>\<close> on that chain with one pass allowed.\<close>

lemma chain_neg_find_xi_run:
  "\<exists>res0 S0 pr0 S' pr.
     iterate minimize_newton (chain_solver [- 100, - 100, - 100]) 100 True
       = Some (Inr res0, S0, pr0) \<and>
     find_xi_for minimize_newton x True tol_b 1 (r_RE res0) [0..<1] None 0 S0 pr0
       = Some (Inr (Some (101 / 2, 1, 100), 1), S', pr) \<and>
     find_xi minimize_newton (chain_solver [- 100, - 100, - 100]) x True tol_b 1
       = Some (Inr (101 / 2), S', pr) \<and>
     xi S' = Some 1 \<and> pr \<noteq> [] \<and> last pr = MaxIterReached NaN"
proof -
  define S where "S = chain_solver [- 100, - 100, - 100]"
  have cd: "chain_data S [- 100, - 100, - 100]"
    unfolding S_def by (rule chain_solver_data)
  obtain res0 pr0 S0 where run0: "iterate minimize_newton S 100 True = Some (Inr res0, S0, pr0)"
    and S0: "S0 = S\<lparr>xi := Some 100, lower := Some True, state := Some 3,
                             mu := Some (- 100), v := Some [0, 0, 0]\<rparr>"
    and RE0: "r_RE res0 = NaN"
    using chain_neg_iterate[OF cd, of 100] by auto
  have cd0: "chain_data S0 [- 100, - 100, - 100]"
    unfolding S0 using cd by (rule chain_data_after)
  obtain res1 pr1 S1 where run1: "iterate minimize_newton S0 1 True = Some (Inr res1, S1, pr1)"
    and S1: "S1 = S0\<lparr>xi := Some 1, lower := Some True, state := Some 3,
                             mu := Some (- 100), v := Some [0, 0, 0]\<rparr>"
    and RE1: "r_RE res1 = NaN"
    using chain_neg_iterate[OF cd0, of 1] by auto
  have start: "(if (0::nat) = 0 then Some (1, 0, 100) else None) = Some (1::real, 0::real, 100::real)"
    by simp
  have loop: "find_xi_for minimize_newton x True tol_b 1 (r_RE res0) [0..<1] None 0 S0 pr0
      = Some (Inr (Some (101 / 2, 1, 100), 1), S1, pr0 @ pr1 @ [MaxIterReached NaN])"
    using run1 RE1 unfolding RE0
    by (simp add: find_xi_for_pass[OF start] fl_sub_def del: find_xi_for.simps(2))
  have "find_xi minimize_newton S x True tol_b 1
      = Some (Inr (101 / 2), S1, pr0 @ pr1 @ [MaxIterReached NaN])"
    unfolding find_xi_unfold using run0 loop by simp
  moreover have "xi S1 = Some 1" by (simp add: S1)
  ultimately show ?thesis using run0 loop unfolding S_def by auto
qed

lemma chain_neg_find_xi:
  "\<exists>S' pr. find_xi minimize_newton (chain_solver [- 100, - 100, - 100]) x True tol_b 1
             = Some (Inr (101 / 2), S', pr) \<and> xi S' = Some 1 \<and>
           pr \<noteq> [] \<and> last pr = MaxIterReached NaN"
  using chain_neg_find_xi_run[of x tol_b] by blast

theorem find_xi_bisection_witness:
  "map_option fst (find_xi minimize_newton (chain_solver [- 100, - 100, - 100]) (1 / 2) True
                     (1 / 10000000) 1)
     = spec_find_xi minimize_newton (chain_solver [- 100, - 100, - 100]) (1 / 2) True
         (1 / 10000000) 1 \<and>
   spec_find_xi minimize_newton (chain_solver [- 100, - 100, - 100]) (1 / 2) True
         (1 / 10000000) 1 = Some (Inr (101 / 2))"
proof -
  have eq: "map_option fst (find_xi minimize_newton (chain_solver [- 100, - 100, - 100]) (1 / 2) True
                     (1 / 10000000) 1)
     = spec_find_xi minimize_newton (chain_solver [- 100, - 100, - 100]) (1 / 2) True
         (1 / 10000000) 1"
    by (rule find_xi_bisection) simp
  obtain S' pr where "find_xi minimize_newton (chain_solver [- 100, - 100, - 100]) (1 / 2) True
                     (1 / 10000000) 1 = Some (Inr (101 / 2), S', pr)"
    using chain_neg_find_xi by blast
  then show ?thesis using eq by simp
qed





end
